theory Spec2Isabelle
  imports Complex_Main "HOL-Library.Sublist"
begin

section \<open>Smart PAC: rule resolution and PAC generation\<close>

text \<open>
  A shallow embedding of the resolver of \<^verbatim>\<open>src/unnamed/part_004\<close> (\<^verbatim>\<open>hostMatch\<close>,
  \<^verbatim>\<open>resolveHostsByRule\<close>, \<^verbatim>\<open>findProxyForURL\<close>, \<^verbatim>\<open>generatePac\<close>), of the decoder
  \<^verbatim>\<open>parseHostIds\<close> of \<^verbatim>\<open>src/src/app.ts\<close> and of the \<^verbatim>\<open>/pac\<close> handler of
  \<^verbatim>\<open>src/unnamed/part_003\<close>. A JavaScript string is a \<^typ>\<open>string\<close>, one \<^typ>\<open>char\<close> per
  code unit; the comments of the \<^verbatim>\<open>/pac\<close> template, which are not ASCII, are given by the
  bytes the response carries.
\<close>

subsection \<open>JavaScript string and array primitives\<close>

text \<open>\<^verbatim>\<open>s.startsWith(p)\<close>, \<^verbatim>\<open>s.endsWith(t)\<close> and \<^verbatim>\<open>s.slice(n)\<close> for \<open>n \<ge> 0\<close>.\<close>

definition startsWith :: "string \<Rightarrow> string \<Rightarrow> bool" where
  "startsWith s p = (take (length p) s = p)"

definition endsWith :: "string \<Rightarrow> string \<Rightarrow> bool" where
  "endsWith s t = (length t \<le> length s \<and> drop (length s - length t) s = t)"

definition slice :: "string \<Rightarrow> nat \<Rightarrow> string" where
  "slice s n = drop n s"

text \<open>\<^verbatim>\<open>xs.join(sep)\<close> on an array of strings.\<close>

fun join :: "string \<Rightarrow> string list \<Rightarrow> string" where
  "join sep [] = []"
| "join sep [x] = x"
| "join sep (x # y # ys) = x @ sep @ join sep (y # ys)"

text \<open>
  The decimal text of an integer, as a template literal prints a \<^verbatim>\<open>number\<close> that holds an
  integer (of magnitude below \<open>10\<^sup>2\<^sup>1\<close>, where JavaScript turns to exponent notation).
  \<open>digit\<close> is only applied below ten.
\<close>

definition digit :: "nat \<Rightarrow> char" where
  "digit d = ''0123456789'' ! d"

function showNat :: "nat \<Rightarrow> string" where
  "showNat n = (if n < 10 then [digit n] else showNat (n div 10) @ [digit (n mod 10)])"
  by pat_completeness auto
termination
  by (relation "measure id") auto

definition showInt :: "int \<Rightarrow> string" where
  "showInt i = (if i < 0 then ''-'' @ showNat (nat (- i)) else showNat (nat i))"

subsection \<open>The configuration snapshot\<close>

text \<open>
  Modelled from the spec: \<^verbatim>\<open>types.ts\<close> (the declarations of \<^verbatim>\<open>Host\<close>, \<^verbatim>\<open>Rule\<close> and
  \<^verbatim>\<open>HostConfig\<close>) is not among the sources. A host has an integer id and port, an optional
  name and an optional type, a string. \<^verbatim>\<open>sanitizeProxyType\<close> of \<^verbatim>\<open>app.ts\<close> puts \<^verbatim>\<open>PROXY\<close>
  in place of a missing, empty or blank type whenever a host is written or read, so the
  type of a stored host is never empty. A rule is the pair of a pattern and its host ids.
\<close>

record Host =
  host_id :: int
  host_name :: "string option"
  host_host :: string
  host_port :: int
  host_type :: "string option"

type_synonym Rule = "string \<times> int list"

record HostConfig =
  hosts :: "Host list"
  rules :: "Rule list"

subsection \<open>The matcher and the resolver\<close>

definition hostMatch :: "string \<Rightarrow> string \<Rightarrow> bool" where
  "hostMatch host rule =
     (if startsWith rule ''*.'' then endsWith host (slice rule 2) else host = rule)"

text \<open>
  \<^verbatim>\<open>xs.filter(Boolean)\<close> on the results of \<^verbatim>\<open>find\<close>: \<^verbatim>\<open>undefined\<close> is dropped, and a host
  object is always truthy.
\<close>

fun filterDefined :: "'a option list \<Rightarrow> 'a list" where
  "filterDefined [] = []"
| "filterDefined (None # xs) = filterDefined xs"
| "filterDefined (Some x # xs) = x # filterDefined xs"

definition resolveHostsByRule :: "HostConfig \<Rightarrow> string \<Rightarrow> Host list" where
  "resolveHostsByRule hostConfig host =
     (case find (\<lambda>item. hostMatch host (fst item)) (rules hostConfig) of
        None \<Rightarrow> []
      | Some hostRule \<Rightarrow>
          filterDefined
            (map (\<lambda>hostId. find (\<lambda>item. host_id item = hostId) (hosts hostConfig))
               (snd hostRule)))"

text \<open>
  \<^verbatim>\<open>item.type || 'PROXY'\<close>: the default stands in for every falsy type, which for a string
  or \<^verbatim>\<open>undefined\<close> is the missing type and the empty string (the data model counts a blank
  type as absent).
\<close>

definition typeOrProxy :: "string option \<Rightarrow> string" where
  "typeOrProxy t = (case t of None \<Rightarrow> ''PROXY'' | Some s \<Rightarrow> if s = [] then ''PROXY'' else s)"

definition directive :: "Host \<Rightarrow> string" where
  "directive item =
     typeOrProxy (host_type item) @ '' '' @ host_host item @ '':'' @ showInt (host_port item)"

definition findProxyForURL :: "HostConfig \<Rightarrow> string \<Rightarrow> string \<Rightarrow> string" where
  "findProxyForURL hostConfig url host =
     (let matchedHosts = resolveHostsByRule hostConfig host;
          proxies = map directive matchedHosts
      in join '';'' (proxies @ [''DIRECT'']))"

text \<open>The configuration of the tests of \<^verbatim>\<open>src/unnamed/part_005\<close>.\<close>

definition proxy1 :: Host where
  "proxy1 = \<lparr>host_id = 1, host_name = None, host_host = ''proxy.example.com'',
     host_port = 8080, host_type = Some ''SOCKS''\<rparr>"

definition proxy2 :: Host where
  "proxy2 = \<lparr>host_id = 2, host_name = None, host_host = ''proxy2.example.com'',
     host_port = 8081, host_type = Some ''HTTP''\<rparr>"

definition testConfig :: HostConfig where
  "testConfig = \<lparr>hosts = [proxy1, proxy2],
     rules = [(''*.google.com'', [1]), (''*.github.com'', [1, 2]), (''a.youtube.com'', [2])]\<rparr>"

subsection \<open>The embedded-logic script\<close>

text \<open>
  \<^verbatim>\<open>generatePac\<close> pushes onto \<^verbatim>\<open>stringList\<close> the declaration of \<^verbatim>\<open>hostConfig\<close> (the
  configuration as a JSON literal, which evaluates to the configuration again), the source
  text of \<^verbatim>\<open>hostMatch\<close>, the source text of \<^verbatim>\<open>findProxyForURL\<close>, and in three lines the
  function \<^verbatim>\<open>FindProxyForURL(url, host)\<close> that returns
  \<^verbatim>\<open>findProxyForURL(hostConfig, url, host)\<close>. The script is the list of these top-level
  declarations; a function's source text declares that function with the body it has in
  \<^verbatim>\<open>src/unnamed/part_004\<close>.
\<close>

datatype pac_item =
    ConfigLiteral HostConfig
  | FunctionSource string
  | WrapperFunction

definition generatePac :: "HostConfig \<Rightarrow> pac_item list" where
  "generatePac hostConfig =
     [ConfigLiteral hostConfig, FunctionSource ''hostMatch'',
      FunctionSource ''findProxyForURL'', WrapperFunction]"

text \<open>
  Running the script in a PAC engine: the engine calls \<^verbatim>\<open>FindProxyForURL\<close>, and each
  identifier a body uses is looked up among the script's top-level declarations; one
  that is not declared raises a \<^verbatim>\<open>ReferenceError\<close> when the body reaches it. The bodies
  are those of the source: \<^verbatim>\<open>findProxyForURL\<close> calls \<^verbatim>\<open>resolveHostsByRule\<close> first, and
  \<^verbatim>\<open>resolveHostsByRule\<close> calls \<^verbatim>\<open>hostMatch\<close> for the first rule, if there is one.
\<close>

datatype js_error = ReferenceError string | SyntaxError | TypeError

fun declaredName :: "pac_item \<Rightarrow> string" where
  "declaredName (ConfigLiteral c) = ''hostConfig''"
| "declaredName (FunctionSource f) = f"
| "declaredName WrapperFunction = ''FindProxyForURL''"

definition declares :: "pac_item list \<Rightarrow> string \<Rightarrow> bool" where
  "declares script name = (name \<in> set (map declaredName script))"

fun embeddedConfig :: "pac_item list \<Rightarrow> HostConfig option" where
  "embeddedConfig [] = None"
| "embeddedConfig (ConfigLiteral c # items) = Some c"
| "embeddedConfig (item # items) = embeddedConfig items"

definition scriptResolveHostsByRule ::
    "pac_item list \<Rightarrow> HostConfig \<Rightarrow> string \<Rightarrow> js_error + Host list" where
  "scriptResolveHostsByRule script hostConfig host =
     (if rules hostConfig \<noteq> [] \<and> \<not> declares script ''hostMatch''
      then Inl (ReferenceError ''hostMatch'')
      else Inr (resolveHostsByRule hostConfig host))"

definition scriptFindProxyForURL ::
    "pac_item list \<Rightarrow> HostConfig \<Rightarrow> string \<Rightarrow> string \<Rightarrow> js_error + string" where
  "scriptFindProxyForURL script hostConfig url host =
     (if \<not> declares script ''resolveHostsByRule''
      then Inl (ReferenceError ''resolveHostsByRule'')
      else case scriptResolveHostsByRule script hostConfig host of
             Inl e \<Rightarrow> Inl e
           | Inr matchedHosts \<Rightarrow> Inr (join '';'' (map directive matchedHosts @ [''DIRECT''])))"

definition runPac :: "pac_item list \<Rightarrow> string \<Rightarrow> string \<Rightarrow> js_error + string" where
  "runPac script url host =
     (if \<not> declares script ''FindProxyForURL'' then Inl (ReferenceError ''FindProxyForURL'')
      else if \<not> declares script ''findProxyForURL''
      then Inl (ReferenceError ''findProxyForURL'')
      else case embeddedConfig script of
             None \<Rightarrow> Inl (ReferenceError ''hostConfig'')
           | Some hostConfig \<Rightarrow> scriptFindProxyForURL script hostConfig url host)"

subsection \<open>The pre-expanded script: patterns\<close>

text \<open>
  \<^verbatim>\<open>s.replace(/c/g, rep)\<close> for a regular expression that matches the one character \<open>c\<close>:
  every occurrence of \<open>c\<close> becomes \<open>rep\<close>.
\<close>

definition replaceAll :: "char \<Rightarrow> string \<Rightarrow> string \<Rightarrow> string" where
  "replaceAll c rep s = concat (map (\<lambda>x. if x = c then rep else [x]) s)"

definition backslash :: char where
  "backslash = CHR 0x5C"

text \<open>
  \<^verbatim>\<open>rule.pattern.replace(/\*/g, '.*').replace(/\./g, '\\.')\<close>: the stars are expanded by
  the first call, the dots are escaped by the second.
\<close>

definition patternToRegex :: "string \<Rightarrow> string" where
  "patternToRegex pattern =
     replaceAll (CHR ''.'') [backslash, CHR ''.''] (replaceAll (CHR ''*'') ''.*'' pattern)"

text \<open>
  The translation in the order the specification words it, for comparison with
  \<open>patternToRegex\<close>: the dots are escaped first, the stars are expanded after.
\<close>

definition claimedPatternToRegex :: "string \<Rightarrow> string" where
  "claimedPatternToRegex pattern =
     replaceAll (CHR ''*'') ''.*'' (replaceAll (CHR ''.'') [backslash, CHR ''.''] pattern)"

subsection \<open>JSON values and the built-ins\<close>

text \<open>
  A JavaScript \<^verbatim>\<open>number\<close>: a finite value (every finite double is a rational; the two
  zeros are one value, as \<^verbatim>\<open>===\<close> and a \<^verbatim>\<open>Set\<close> take them), an infinity or \<^verbatim>\<open>NaN\<close>;
  \<^verbatim>\<open>Number.isInteger(x)\<close> and \<^verbatim>\<open>x > 0\<close> on it.
\<close>

datatype number = Finite rat | PosInfinity | NegInfinity | NaN


fun positive :: "number \<Rightarrow> bool" where
  "positive (Finite q) = (0 < q)"
| "positive PosInfinity = True"
| "positive x = False"

datatype json =
    JNull
  | JBool bool
  | JNumber number
  | JString string
  | JArray "json list"
  | JObject "(string \<times> json) list"

text \<open>
  The built-ins the code calls on values it does not control are parameters:
  \<^verbatim>\<open>JSON.parse(text)\<close>, which is \<open>None\<close> where it throws a \<^verbatim>\<open>SyntaxError\<close>;
  \<^verbatim>\<open>Number(value)\<close> on a string, an array or an object; and the text a template literal
  gives a value. The last two are \<open>None\<close> where the conversion throws a \<^verbatim>\<open>TypeError\<close>,
  as it does on an object whose \<^verbatim>\<open>toString\<close> is not a function.
\<close>

record builtins =
  json_parse :: "string \<Rightarrow> json option"
  to_number :: "json \<Rightarrow> number option"
  to_string :: "json \<Rightarrow> string option"

text \<open>
  \<^verbatim>\<open>Number(value)\<close>: \<^verbatim>\<open>null\<close> is 0, \<^verbatim>\<open>false\<close> is 0, \<^verbatim>\<open>true\<close> is 1 and a number is
  itself; the parameter converts the other values.
\<close>

definition toNumber :: "builtins \<Rightarrow> json \<Rightarrow> number option" where
  "toNumber b v =
     (case v of
        JNull \<Rightarrow> Some (Finite 0)
      | JBool t \<Rightarrow> Some (Finite (if t then 1 else 0))
      | JNumber n \<Rightarrow> Some n
      | _ \<Rightarrow> to_number b v)"

subsection \<open>Decoding the host ids of a rule\<close>




subsection \<open>The pre-expanded script\<close>

text \<open>
  The rows the \<^verbatim>\<open>/pac\<close> handler of \<^verbatim>\<open>src/unnamed/part_003\<close> reads: a host row holds what
  \<^verbatim>\<open>updateHost\<close> stored, its type a string that no code checks; a rule row holds the
  pattern and the JSON text of the host ids.
\<close>

record PacHost =
  pac_id :: int
  pac_user_id :: int
  pac_name :: string
  pac_type :: string
  pac_host :: string
  pac_port :: int

record PacRule =
  rule_pattern :: string
  rule_host_ids :: string

text \<open>The comments of the template, in the bytes of the response (UTF-8).\<close>

definition commentDirect :: string where
  "commentDirect = [CHR 0xE9, CHR 0xBB, CHR 0x98, CHR 0xE8, CHR 0xAE, CHR 0xA4, CHR 0xE7,
     CHR 0x9B, CHR 0xB4, CHR 0xE8, CHR 0xBF, CHR 0x9E]"

definition commentProxies :: string where
  "commentProxies = [CHR 0xE5, CHR 0xAE, CHR 0x9A, CHR 0xE4, CHR 0xB9, CHR 0x89, CHR 0xE4,
     CHR 0xBB, CHR 0xA3, CHR 0xE7, CHR 0x90, CHR 0x86, CHR 0xE6, CHR 0x9C, CHR 0x8D, CHR 0xE5,
     CHR 0x8A, CHR 0xA1, CHR 0xE5, CHR 0x99, CHR 0xA8]"

definition commentRules :: string where
  "commentRules = [CHR 0xE5, CHR 0x8C, CHR 0xB9, CHR 0xE9, CHR 0x85, CHR 0x8D, CHR 0xE8,
     CHR 0xA7, CHR 0x84, CHR 0xE5, CHR 0x88, CHR 0x99]"

definition commentReturn :: string where
  "commentReturn = [CHR 0xE9, CHR 0xBB, CHR 0x98, CHR 0xE8, CHR 0xAE, CHR 0xA4, CHR 0xE8,
     CHR 0xBF, CHR 0x94, CHR 0xE5, CHR 0x9B, CHR 0x9E, CHR 0xE7, CHR 0x9B, CHR 0xB4, CHR 0xE8,
     CHR 0xBF, CHR 0x9E]"

text \<open>The three fixed parts of the template.\<close>

definition pacHeader :: string where
  \<open>pacHeader =
     ''\<newline>function FindProxyForURL(url, host) {\<newline>    // '' @ commentDirect
     @ ''\<newline>    var DEFAULT = "DIRECT";\<newline>    \<newline>    // '' @ commentProxies
     @ ''\<newline>    var PROXY = {\<newline>''\<close>

definition pacMiddle :: string where
  "pacMiddle = ''    };\<newline>    \<newline>    // '' @ commentRules @ ''\<newline>''"

definition pacFooter :: string where
  "pacFooter =
     ''\<newline>    // '' @ commentReturn @ ''\<newline>    return DEFAULT;\<newline>}''"

text \<open>What the loop over the hosts appends for one host.\<close>

definition hostEntry :: "PacHost \<Rightarrow> string" where
  \<open>hostEntry host =
     (if pac_type host = ''SOCKS''
      then ''        '' @ showInt (pac_id host) @ '': "SOCKS5 '' @ pac_host host @ '':''
             @ showInt (pac_port host) @ ''",\<newline>''
      else if pac_type host = ''HTTP''
      then ''        '' @ showInt (pac_id host) @ '': "PROXY '' @ pac_host host @ '':''
             @ showInt (pac_port host) @ ''",\<newline>''
      else if pac_type host = ''HTTPS''
      then ''        '' @ showInt (pac_id host) @ '': "HTTPS '' @ pac_host host @ '':''
             @ showInt (pac_port host) @ ''",\<newline>''
      else [])\<close>

text \<open>
  \<^verbatim>\<open>hostIds.length > 0\<close> on the parsed value: reading a property of \<^verbatim>\<open>null\<close> throws a
  \<^verbatim>\<open>TypeError\<close>; a boolean or a number has no \<^verbatim>\<open>length\<close>, and \<^verbatim>\<open>undefined > 0\<close> is
  false; an object has the \<^verbatim>\<open>length\<close> it lists, compared as a number.
\<close>

definition lengthPositive :: "builtins \<Rightarrow> json \<Rightarrow> js_error + bool" where
  "lengthPositive b hostIds =
     (case hostIds of
        JNull \<Rightarrow> Inl TypeError
      | JBool v \<Rightarrow> Inr False
      | JNumber n \<Rightarrow> Inr False
      | JString s \<Rightarrow> Inr (0 < length s)
      | JArray items \<Rightarrow> Inr (0 < length items)
      | JObject props \<Rightarrow>
          (case map_of props ''length'' of
             None \<Rightarrow> Inr False
           | Some l \<Rightarrow>
               (case toNumber b l of
                  None \<Rightarrow> Inl TypeError
                | Some n \<Rightarrow> Inr (positive n))))"

text \<open>The text of \<^verbatim>\<open>hostIds[0]\<close> in the template; a missing element is \<^verbatim>\<open>undefined\<close>.\<close>

definition textOf :: "builtins \<Rightarrow> json \<Rightarrow> js_error + string" where
  "textOf b v = (case to_string b v of None \<Rightarrow> Inl TypeError | Some s \<Rightarrow> Inr s)"

definition firstElementText :: "builtins \<Rightarrow> json \<Rightarrow> js_error + string" where
  "firstElementText b hostIds =
     (case hostIds of
        JString s \<Rightarrow> (case s of [] \<Rightarrow> Inr ''undefined'' | c # cs \<Rightarrow> Inr [c])
      | JArray items \<Rightarrow> (case items of [] \<Rightarrow> Inr ''undefined'' | x # xs \<Rightarrow> textOf b x)
      | JObject props \<Rightarrow>
          (case map_of props ''0'' of None \<Rightarrow> Inr ''undefined'' | Some x \<Rightarrow> textOf b x)
      | _ \<Rightarrow> Inr ''undefined'')"

text \<open>What the loop over the rules appends for one rule, or the exception it throws.\<close>

definition ruleConditional :: "builtins \<Rightarrow> PacRule \<Rightarrow> js_error + string" where
  "ruleConditional b rule =
     (let pattern = patternToRegex (rule_pattern rule)
      in case json_parse b (rule_host_ids rule) of
           None \<Rightarrow> Inl SyntaxError
         | Some hostIds \<Rightarrow>
             (case lengthPositive b hostIds of
                Inl e \<Rightarrow> Inl e
              | Inr nonEmpty \<Rightarrow>
                  if nonEmpty
                  then (case firstElementText b hostIds of
                          Inl e \<Rightarrow> Inl e
                        | Inr first \<Rightarrow>
                            Inr (''    if (/'' @ pattern @ ''/.test(host)) return PROXY[''
                                   @ first @ ''];\<newline>''))
                  else Inr []))"

fun appendRules :: "builtins \<Rightarrow> PacRule list \<Rightarrow> string \<Rightarrow> js_error + string" where
  "appendRules b [] pacContent = Inr pacContent"
| "appendRules b (rule # rs) pacContent =
     (case ruleConditional b rule of
        Inl e \<Rightarrow> Inl e
      | Inr line \<Rightarrow> appendRules b rs (pacContent @ line))"

text \<open>
  The handler: the script on success, the exception its \<^verbatim>\<open>catch\<close> answers with status
  500 otherwise.
\<close>

definition pacContent :: "builtins \<Rightarrow> PacHost list \<Rightarrow> PacRule list \<Rightarrow> js_error + string" where
  "pacContent b hs rs =
     (let withHosts = foldl (\<lambda>content host. content @ hostEntry host) pacHeader hs
      in case appendRules b rs (withHosts @ pacMiddle) of
           Inl e \<Rightarrow> Inl e
         | Inr withRules \<Rightarrow> Inr (withRules @ pacFooter))"

text \<open>The entries of the lookup table, between the header and the middle part.\<close>

definition hostsTable :: "PacHost list \<Rightarrow> string" where
  "hostsTable hs = concat (map hostEntry hs)"

text \<open>
  A stand-in for the built-ins on the texts and values of the examples: \<^verbatim>\<open>JSON.parse\<close>
  on five texts (it throws on any other), \<^verbatim>\<open>Number\<close> on the string \<open>7\<close>, the text of an
  integer; the examples convert no other value.
\<close>

definition testParse :: "string \<Rightarrow> json option" where
  \<open>testParse text =
     (if text = ''[1,null,-2,1.5,3,1]''
      then Some (JArray [JNumber (Finite 1), JNull, JNumber (Finite (- 2)),
                   JNumber (Finite (3 / 2)), JNumber (Finite 3), JNumber (Finite 1)])
      else if text = ''[true,"7",2]''
      then Some (JArray [JBool True, JString ''7'', JNumber (Finite 2)])
      else if text = ''[2,1]'' then Some (JArray [JNumber (Finite 2), JNumber (Finite 1)])
      else if text = ''[]'' then Some (JArray [])
      else if text = ''5'' then Some (JNumber (Finite 5))
      else None)\<close>

definition testNumber :: "json \<Rightarrow> number option" where
  "testNumber v =
     (case v of
        JString s \<Rightarrow> if s = ''7'' then Some (Finite 7) else Some NaN
      | _ \<Rightarrow> Some NaN)"

definition testString :: "json \<Rightarrow> string option" where
  "testString v = (case v of JNumber (Finite q) \<Rightarrow> Some (showInt \<lfloor>q\<rfloor>) | _ \<Rightarrow> None)"

definition testBuiltins :: builtins where
  "testBuiltins = \<lparr>json_parse = testParse, to_number = testNumber, to_string = testString\<rparr>"

text \<open>Host rows for the examples: one of each type the handler knows, and one of type \<open>PROXY\<close>.\<close>

definition socksRow :: PacHost where
  "socksRow = \<lparr>pac_id = 1, pac_user_id = 1, pac_name = ''a'', pac_type = ''SOCKS'',
     pac_host = ''proxy.example.com'', pac_port = 8080\<rparr>"

definition httpRow :: PacHost where
  "httpRow = \<lparr>pac_id = 2, pac_user_id = 1, pac_name = ''b'', pac_type = ''HTTP'',
     pac_host = ''proxy2.example.com'', pac_port = 8081\<rparr>"


definition proxyRow :: PacHost where
  "proxyRow = \<lparr>pac_id = 7, pac_user_id = 1, pac_name = ''p'', pac_type = ''PROXY'',
     pac_host = ''h'', pac_port = 1\<rparr>"

text \<open>Rule rows for the examples: one with two host ids, one with none.\<close>

definition googleRule :: PacRule where
  "googleRule = \<lparr>rule_pattern = ''*.google.com'', rule_host_ids = ''[2,1]''\<rparr>"

definition youtubeRule :: PacRule where
  "youtubeRule = \<lparr>rule_pattern = ''a.youtube.com'', rule_host_ids = ''[]''\<rparr>"

subsection \<open>The matcher\<close>

lemma startsWith_prefix: "startsWith s p = prefix p s"
  by (auto simp: startsWith_def prefix_def) (metis append_take_drop_id)

lemma endsWith_suffix: "endsWith s t = suffix t s"
proof
  assume "endsWith s t"
  then have "s = take (length s - length t) s @ t"
    by (metis append_take_drop_id endsWith_def)
  then show "suffix t s"
    by (rule suffixI)
next
  assume "suffix t s"
  then obtain zs where "s = zs @ t"
    by (auto simp: suffix_def)
  then show "endsWith s t"
    by (simp add: endsWith_def)
qed

text \<open>
  C1. For every host \<open>h\<close> and pattern \<open>p\<close>: when \<open>p\<close> starts with the two characters \<open>*.\<close>,
  \<open>hostMatch h p\<close> holds exactly when \<open>h\<close> ends with what follows them in \<open>p\<close> (a plain
  suffix comparison, with no check for a dot before the suffix); otherwise exactly when
  \<open>h = p\<close>. So \<open>*.example.com\<close> matches \<open>www.example.com\<close> and \<open>example.com\<close>.
\<close>

theorem hostMatch_spec:
  "hostMatch h p = (if prefix ''*.'' p then suffix (drop 2 p) h else h = p)
   \<and> hostMatch ''www.example.com'' ''*.example.com''
   \<and> hostMatch ''example.com'' ''*.example.com''"
  by (simp add: hostMatch_def startsWith_prefix endsWith_suffix slice_def suffix_def)

subsection \<open>The resolver\<close>

lemma find_first_match:
  "(\<forall>r \<in> set pre. \<not> P r) \<Longrightarrow> P x \<Longrightarrow> find P (pre @ x # post) = Some x"
  by (induction pre) auto

lemma find_no_match: "(\<forall>r \<in> set rs. \<not> P r) \<Longrightarrow> find P rs = None"
  by (induction rs) auto

text \<open>Every list of rules is of one of the two shapes the theorems below speak of.\<close>

lemma first_match_cases:
  "(\<forall>r \<in> set rs. \<not> hostMatch host (fst r))
   \<or> (\<exists>pre p ids post. rs = pre @ (p, ids) # post
        \<and> (\<forall>r \<in> set pre. \<not> hostMatch host (fst r)) \<and> hostMatch host p)"
proof (cases "\<exists>r \<in> set rs. hostMatch host (fst r)")
  case True
  from split_list_first_prop [OF True] obtain pre x post
    where "rs = pre @ x # post" "hostMatch host (fst x)" "\<forall>r \<in> set pre. \<not> hostMatch host (fst r)"
    by blast
  then have "rs = pre @ (fst x, snd x) # post
      \<and> (\<forall>r \<in> set pre. \<not> hostMatch host (fst r)) \<and> hostMatch host (fst x)"
    by simp
  then show ?thesis
    by blast
next
  case False
  then show ?thesis
    by blast
qed

lemma filterDefined_append: "filterDefined (xs @ ys) = filterDefined xs @ filterDefined ys"
  by (induction xs rule: filterDefined.induct) auto

lemma find_absent_id: "i \<notin> host_id ` set hs \<Longrightarrow> find (\<lambda>item. host_id item = i) hs = None"
  by (induction hs) auto

lemma join_Cons: "ys \<noteq> [] \<Longrightarrow> join sep (x # ys) = x @ sep @ join sep ys"
  by (cases ys) auto

lemma join_then_direct:
  "join '';'' (xs @ [''DIRECT'']) = concat (map (\<lambda>x. x @ '';'') xs) @ ''DIRECT''"
  by (induction xs) (auto simp: join_Cons)

text \<open>
  C2. Rule resolution scans \<open>rules\<close> in their stored order and uses only the first rule
  whose pattern matches the host: with no matching rule before \<open>(p, ids)\<close> and \<open>p\<close>
  matching, the resolved hosts are those of \<open>ids\<close>, whatever rules follow (matching or
  not); and when no rule matches, the resolved list is empty.
\<close>

theorem resolveHostsByRule_first_match:
  "((\<forall>r \<in> set pre. \<not> hostMatch host (fst r)) \<and> hostMatch host p \<longrightarrow>
      resolveHostsByRule \<lparr>hosts = hs, rules = pre @ (p, ids) # post\<rparr> host
        = filterDefined (map (\<lambda>hostId. find (\<lambda>item. host_id item = hostId) hs) ids))
   \<and> ((\<forall>r \<in> set rs. \<not> hostMatch host (fst r)) \<longrightarrow>
      resolveHostsByRule \<lparr>hosts = hs, rules = rs\<rparr> host = [])"
proof (intro conjI impI)
  assume "(\<forall>r \<in> set pre. \<not> hostMatch host (fst r)) \<and> hostMatch host p"
  then have "find (\<lambda>item. hostMatch host (fst item)) (pre @ (p, ids) # post) = Some (p, ids)"
    by (intro find_first_match) auto
  then show "resolveHostsByRule \<lparr>hosts = hs, rules = pre @ (p, ids) # post\<rparr> host
      = filterDefined (map (\<lambda>hostId. find (\<lambda>item. host_id item = hostId) hs) ids)"
    by (simp add: resolveHostsByRule_def)
next
  assume "\<forall>r \<in> set rs. \<not> hostMatch host (fst r)"
  then have "find (\<lambda>item. hostMatch host (fst item)) rs = None"
    by (rule find_no_match)
  then show "resolveHostsByRule \<lparr>hosts = hs, rules = rs\<rparr> host = []"
    by (simp add: resolveHostsByRule_def)
qed

theorem resolveHostsByRule_first_match_witness:
  "\<not> hostMatch ''www.github.com'' ''*.google.com''
   \<and> hostMatch ''www.github.com'' ''*.github.com''
   \<and> hostMatch ''www.github.com'' ''www.github.com''
   \<and> resolveHostsByRule
        \<lparr>hosts = [proxy1, proxy2],
         rules = [(''*.google.com'', [1]), (''*.github.com'', [1, 2]), (''www.github.com'', [2])]\<rparr>
        ''www.github.com'' = [proxy1, proxy2]
   \<and> resolveHostsByRule \<lparr>hosts = [proxy1, proxy2], rules = [(''*.google.com'', [1])]\<rparr>
        ''www.github.com'' = []"
proof -
  have no: "\<forall>r \<in> set [(''*.google.com'', [1::int])]. \<not> hostMatch ''www.github.com'' (fst r)"
    by (simp add: hostMatch_def startsWith_def endsWith_def slice_def)
  have yes: "hostMatch ''www.github.com'' ''*.github.com''"
    by (simp add: hostMatch_def startsWith_def endsWith_def slice_def)
  have later: "hostMatch ''www.github.com'' ''www.github.com''"
    by (simp add: hostMatch_def startsWith_def)
  note inst = resolveHostsByRule_first_match
    [of "[(''*.google.com'', [1])]" "''www.github.com''" "''*.github.com''"
      "[proxy1, proxy2]" "[1, 2]" "[(''www.github.com'', [2])]" "[(''*.google.com'', [1])]"]
  have first: "resolveHostsByRule
        \<lparr>hosts = [proxy1, proxy2],
         rules = [(''*.google.com'', [1]), (''*.github.com'', [1, 2]), (''www.github.com'', [2])]\<rparr>
        ''www.github.com'' = [proxy1, proxy2]"
    using inst no yes by (simp add: proxy1_def proxy2_def)
  have none: "resolveHostsByRule \<lparr>hosts = [proxy1, proxy2], rules = [(''*.google.com'', [1])]\<rparr>
        ''www.github.com'' = []"
    using inst no by blast
  from no yes later first none show ?thesis
    by simp
qed

lemma showInt_small:
  "showInt 1 = ''1''" "showInt 2 = ''2''" "showInt 8080 = ''8080''" "showInt 8081 = ''8081''"
  by (simp_all add: showInt_def digit_def)

lemma find_in_rules:
  "find (\<lambda>r. Q (fst r)) (pre @ (p, a) # post) =
     (case find (\<lambda>r. Q (fst r)) pre of
        Some r \<Rightarrow> Some r
      | None \<Rightarrow> if Q p then Some (p, a) else find (\<lambda>r. Q (fst r)) post)"
  by (induction pre) auto

lemma find_Some_member: "find P xs = Some x \<Longrightarrow> x \<in> set xs \<and> P x"
  by (induction xs) (auto split: if_splits)

lemma resolved_ids:
  "map host_id (filterDefined (map (\<lambda>hostId. find (\<lambda>item. host_id item = hostId) hs) js))
     = filter (\<lambda>j. j \<in> host_id ` set hs) js"
proof (induction js)
  case Nil
  then show ?case by simp
next
  case (Cons j js)
  show ?case
  proof (cases "find (\<lambda>item. host_id item = j) hs")
    case None
    then have "j \<notin> host_id ` set hs"
      by (auto simp: find_None_iff)
    with None Cons show ?thesis
      by simp
  next
    case (Some h)
    from find_Some_member [OF this] have "host_id h = j" and "h \<in> set hs"
      by simp_all
    then have "j \<in> host_id ` set hs"
      by blast
    with Some \<open>host_id h = j\<close> Cons show ?thesis
      by simp
  qed
qed

lemma resolved_hosts:
  "set (filterDefined (map (\<lambda>hostId. find (\<lambda>item. host_id item = hostId) hs) js)) \<subseteq> set hs"
proof (induction js)
  case Nil
  then show ?case by simp
next
  case (Cons j js)
  show ?case
  proof (cases "find (\<lambda>item. host_id item = j) hs")
    case None
    with Cons show ?thesis
      by simp
  next
    case (Some h)
    from find_Some_member [OF this] have "h \<in> set hs"
      by simp
    with Some Cons show ?thesis
      by simp
  qed
qed

text \<open>
  C3. For every configuration, url and host, \<open>findProxyForURL\<close> returns one directive
  \<open>{type} {host}:{port}\<close> followed by a semicolon for each resolved host of the first
  matching rule, in the order of the rule's host ids, the type replaced by \<open>PROXY\<close> when
  the host has none, and then a final \<open>DIRECT\<close>; when no rule matches it returns exactly
  \<open>DIRECT\<close>. The first part holds of every configuration, where the resolver takes an
  empty type for a missing one; the last part words it for the configurations the
  resolver is given, whose types are not empty.
\<close>

theorem findProxyForURL_directives:
  "((\<forall>r \<in> set pre. \<not> hostMatch host (fst r)) \<and> hostMatch host p \<longrightarrow>
      findProxyForURL \<lparr>hosts = hs, rules = pre @ (p, ids) # post\<rparr> url host
        = concat (map (\<lambda>item.
              (case host_type item of None \<Rightarrow> ''PROXY''
               | Some t \<Rightarrow> if t = [] then ''PROXY'' else t)
                @ '' '' @ host_host item @ '':'' @ showInt (host_port item) @ '';'')
            (filterDefined (map (\<lambda>hostId. find (\<lambda>item. host_id item = hostId) hs) ids)))
          @ ''DIRECT'')
   \<and> ((\<forall>r \<in> set rs. \<not> hostMatch host (fst r)) \<longrightarrow>
      findProxyForURL \<lparr>hosts = hs, rules = rs\<rparr> url host = ''DIRECT'')
   \<and> ((\<forall>r \<in> set pre. \<not> hostMatch host (fst r)) \<and> hostMatch host p
        \<and> (\<forall>item \<in> set hs. host_type item \<noteq> Some []) \<longrightarrow>
      findProxyForURL \<lparr>hosts = hs, rules = pre @ (p, ids) # post\<rparr> url host
        = concat (map (\<lambda>item.
              (case host_type item of None \<Rightarrow> ''PROXY'' | Some t \<Rightarrow> t)
                @ '' '' @ host_host item @ '':'' @ showInt (host_port item) @ '';'')
            (filterDefined (map (\<lambda>hostId. find (\<lambda>item. host_id item = hostId) hs) ids)))
          @ ''DIRECT'')"
proof -
  have first: "findProxyForURL \<lparr>hosts = hs, rules = pre @ (p, ids) # post\<rparr> url host
        = concat (map (\<lambda>item.
              (case host_type item of None \<Rightarrow> ''PROXY''
               | Some t \<Rightarrow> if t = [] then ''PROXY'' else t)
                @ '' '' @ host_host item @ '':'' @ showInt (host_port item) @ '';'')
            (filterDefined (map (\<lambda>hostId. find (\<lambda>item. host_id item = hostId) hs) ids)))
          @ ''DIRECT''"
    if "(\<forall>r \<in> set pre. \<not> hostMatch host (fst r)) \<and> hostMatch host p"
  proof -
    from that
    have "find (\<lambda>item. hostMatch host (fst item)) (pre @ (p, ids) # post) = Some (p, ids)"
      by (intro find_first_match) auto
    then have "resolveHostsByRule \<lparr>hosts = hs, rules = pre @ (p, ids) # post\<rparr> host
        = filterDefined (map (\<lambda>hostId. find (\<lambda>item. host_id item = hostId) hs) ids)"
      by (simp add: resolveHostsByRule_def)
    then show ?thesis
      by (simp add: findProxyForURL_def join_then_direct directive_def typeOrProxy_def
          comp_def)
  qed
  have none: "findProxyForURL \<lparr>hosts = hs, rules = rs\<rparr> url host = ''DIRECT''"
    if "\<forall>r \<in> set rs. \<not> hostMatch host (fst r)"
  proof -
    from that have "find (\<lambda>item. hostMatch host (fst item)) rs = None"
      by (rule find_no_match)
    then show ?thesis
      by (simp add: findProxyForURL_def resolveHostsByRule_def)
  qed
  have stored: "findProxyForURL \<lparr>hosts = hs, rules = pre @ (p, ids) # post\<rparr> url host
        = concat (map (\<lambda>item.
              (case host_type item of None \<Rightarrow> ''PROXY'' | Some t \<Rightarrow> t)
                @ '' '' @ host_host item @ '':'' @ showInt (host_port item) @ '';'')
            (filterDefined (map (\<lambda>hostId. find (\<lambda>item. host_id item = hostId) hs) ids)))
          @ ''DIRECT''"
    if "(\<forall>r \<in> set pre. \<not> hostMatch host (fst r)) \<and> hostMatch host p
        \<and> (\<forall>item \<in> set hs. host_type item \<noteq> Some [])"
  proof -
    have "(case host_type item of None \<Rightarrow> ''PROXY'' | Some t \<Rightarrow> if t = [] then ''PROXY'' else t)
        = (case host_type item of None \<Rightarrow> ''PROXY'' | Some t \<Rightarrow> t)"
      if "item \<in> set (filterDefined (map (\<lambda>hostId. find (\<lambda>item. host_id item = hostId) hs) ids))"
      for item
    proof -
      from that resolved_hosts [of hs ids] have "item \<in> set hs"
        by blast
      with \<open>_ \<and> _ \<and> (\<forall>item \<in> set hs. host_type item \<noteq> Some [])\<close>
      have "host_type item \<noteq> Some []"
        by blast
      then show ?thesis
        by (cases "host_type item") auto
    qed
    then have same: "map (\<lambda>item.
              (case host_type item of None \<Rightarrow> ''PROXY''
               | Some t \<Rightarrow> if t = [] then ''PROXY'' else t)
                @ '' '' @ host_host item @ '':'' @ showInt (host_port item) @ '';'')
            (filterDefined (map (\<lambda>hostId. find (\<lambda>item. host_id item = hostId) hs) ids))
        = map (\<lambda>item.
              (case host_type item of None \<Rightarrow> ''PROXY'' | Some t \<Rightarrow> t)
                @ '' '' @ host_host item @ '':'' @ showInt (host_port item) @ '';'')
            (filterDefined (map (\<lambda>hostId. find (\<lambda>item. host_id item = hostId) hs) ids))"
      by (intro map_cong) simp_all
    from that have "(\<forall>r \<in> set pre. \<not> hostMatch host (fst r)) \<and> hostMatch host p"
      by blast
    from first [OF this] show ?thesis
      by (simp only: same)
  qed
  from first none stored show ?thesis
    by blast
qed

theorem findProxyForURL_directives_witness:
  "findProxyForURL testConfig ''https://www.github.com'' ''www.github.com''
     = ''SOCKS proxy.example.com:8080;HTTP proxy2.example.com:8081;DIRECT''
   \<and> findProxyForURL testConfig ''https://example.com'' ''example.com'' = ''DIRECT''"
proof -
  have no: "\<forall>r \<in> set [(''*.google.com'', [1::int])]. \<not> hostMatch ''www.github.com'' (fst r)"
    by (simp add: hostMatch_def startsWith_def endsWith_def slice_def)
  have yes: "hostMatch ''www.github.com'' ''*.github.com''"
    by (simp add: hostMatch_def startsWith_def endsWith_def slice_def)
  have typed: "\<forall>item \<in> set [proxy1, proxy2]. host_type item \<noteq> Some []"
    by (simp add: proxy1_def proxy2_def)
  have none: "\<forall>r \<in> set (rules testConfig). \<not> hostMatch ''example.com'' (fst r)"
    by (simp add: testConfig_def hostMatch_def startsWith_def endsWith_def slice_def)
  have ids: "host_id proxy1 = 1" "host_id proxy2 = 2"
    by (simp_all add: proxy1_def proxy2_def)
  have found: "filterDefined
      (map (\<lambda>hostId. find (\<lambda>item. host_id item = hostId) [proxy1, proxy2]) [1, 2])
      = [proxy1, proxy2]"
    by (simp add: ids)
  note inst = findProxyForURL_directives
    [of "[(''*.google.com'', [1])]" "''www.github.com''" "''*.github.com''"
      "[proxy1, proxy2]" "[1, 2]" "[(''a.youtube.com'', [2])]" "''https://www.github.com''"
      "rules testConfig", THEN conjunct2, THEN conjunct2, rule_format]
  have chain: "findProxyForURL testConfig ''https://www.github.com'' ''www.github.com''
     = ''SOCKS proxy.example.com:8080;HTTP proxy2.example.com:8081;DIRECT''"
    using inst no yes typed found
    by (simp add: testConfig_def proxy1_def proxy2_def showInt_small)
  have direct: "findProxyForURL testConfig ''https://example.com'' ''example.com'' = ''DIRECT''"
    using findProxyForURL_directives
      [of "[]" "''example.com''" "''x''" "[proxy1, proxy2]" "[]" "[]" "''https://example.com''"
        "rules testConfig"] none
    by (simp add: testConfig_def)
  from chain direct show ?thesis
    by simp
qed

text \<open>
  C4. A host id of a rule with no host of that id in \<open>hosts\<close> is skipped. Resolving with
  the dangling id \<open>i\<close> among the rule's ids gives the hosts, and the directive list, that
  the same rule gives without it; and where that rule is the first to match, the resolved
  hosts are the hosts found for the other ids, in the order of the ids: their ids are the
  other ids that have a host, each of them is a host of the configuration, and the
  directive list is one directive for each of them and then \<open>DIRECT\<close>. Resolution has no
  error result: \<open>resolveHostsByRule\<close> and \<open>findProxyForURL\<close> return a list and a string
  on every configuration, since a failed \<^verbatim>\<open>find\<close> is \<^verbatim>\<open>undefined\<close>, which the filter
  drops.
\<close>

theorem resolve_skips_dangling_id:
  "i \<notin> host_id ` set hs \<Longrightarrow>
     resolveHostsByRule \<lparr>hosts = hs, rules = pre @ (p, xs @ i # ys) # post\<rparr> host
       = resolveHostsByRule \<lparr>hosts = hs, rules = pre @ (p, xs @ ys) # post\<rparr> host
     \<and> findProxyForURL \<lparr>hosts = hs, rules = pre @ (p, xs @ i # ys) # post\<rparr> url host
       = findProxyForURL \<lparr>hosts = hs, rules = pre @ (p, xs @ ys) # post\<rparr> url host
     \<and> ((\<forall>r \<in> set pre. \<not> hostMatch host (fst r)) \<and> hostMatch host p \<longrightarrow>
          resolveHostsByRule \<lparr>hosts = hs, rules = pre @ (p, xs @ i # ys) # post\<rparr> host
            = filterDefined (map (\<lambda>hostId. find (\<lambda>item. host_id item = hostId) hs) (xs @ ys))
          \<and> map host_id
               (resolveHostsByRule \<lparr>hosts = hs, rules = pre @ (p, xs @ i # ys) # post\<rparr> host)
            = filter (\<lambda>j. j \<in> host_id ` set hs) (xs @ ys)
          \<and> set (resolveHostsByRule \<lparr>hosts = hs, rules = pre @ (p, xs @ i # ys) # post\<rparr> host)
            \<subseteq> set hs
          \<and> findProxyForURL \<lparr>hosts = hs, rules = pre @ (p, xs @ i # ys) # post\<rparr> url host
            = concat (map (\<lambda>item. directive item @ '';'')
                (filterDefined
                   (map (\<lambda>hostId. find (\<lambda>item. host_id item = hostId) hs) (xs @ ys))))
              @ ''DIRECT'')"
proof -
  assume dangling: "i \<notin> host_id ` set hs"
  then have skip: "filterDefined (map (\<lambda>hostId. find (\<lambda>item. host_id item = hostId) hs) (xs @ i # ys))
      = filterDefined (map (\<lambda>hostId. find (\<lambda>item. host_id item = hostId) hs) (xs @ ys))"
    by (simp add: filterDefined_append find_absent_id)
  have same: "resolveHostsByRule \<lparr>hosts = hs, rules = pre @ (p, xs @ i # ys) # post\<rparr> host
       = resolveHostsByRule \<lparr>hosts = hs, rules = pre @ (p, xs @ ys) # post\<rparr> host"
    using skip
    by (simp add: resolveHostsByRule_def find_in_rules [of "hostMatch host"]
        split: option.splits)
  then have same_text: "findProxyForURL \<lparr>hosts = hs, rules = pre @ (p, xs @ i # ys) # post\<rparr> url host
       = findProxyForURL \<lparr>hosts = hs, rules = pre @ (p, xs @ ys) # post\<rparr> url host"
    by (simp add: findProxyForURL_def)
  have first: "resolveHostsByRule \<lparr>hosts = hs, rules = pre @ (p, xs @ i # ys) # post\<rparr> host
            = filterDefined (map (\<lambda>hostId. find (\<lambda>item. host_id item = hostId) hs) (xs @ ys))
          \<and> map host_id
               (resolveHostsByRule \<lparr>hosts = hs, rules = pre @ (p, xs @ i # ys) # post\<rparr> host)
            = filter (\<lambda>j. j \<in> host_id ` set hs) (xs @ ys)
          \<and> set (resolveHostsByRule \<lparr>hosts = hs, rules = pre @ (p, xs @ i # ys) # post\<rparr> host)
            \<subseteq> set hs
          \<and> findProxyForURL \<lparr>hosts = hs, rules = pre @ (p, xs @ i # ys) # post\<rparr> url host
            = concat (map (\<lambda>item. directive item @ '';'')
                (filterDefined
                   (map (\<lambda>hostId. find (\<lambda>item. host_id item = hostId) hs) (xs @ ys))))
              @ ''DIRECT''"
    if matched: "(\<forall>r \<in> set pre. \<not> hostMatch host (fst r)) \<and> hostMatch host p"
  proof -
    from matched
    have "find (\<lambda>item. hostMatch host (fst item)) (pre @ (p, xs @ i # ys) # post)
        = Some (p, xs @ i # ys)"
      by (intro find_first_match) auto
    then have resolved:
      "resolveHostsByRule \<lparr>hosts = hs, rules = pre @ (p, xs @ i # ys) # post\<rparr> host
        = filterDefined (map (\<lambda>hostId. find (\<lambda>item. host_id item = hostId) hs) (xs @ ys))"
      using skip by (simp add: resolveHostsByRule_def)
    have ids: "map host_id
          (resolveHostsByRule \<lparr>hosts = hs, rules = pre @ (p, xs @ i # ys) # post\<rparr> host)
        = filter (\<lambda>j. j \<in> host_id ` set hs) (xs @ ys)"
      unfolding resolved by (rule resolved_ids)
    have members:
      "set (resolveHostsByRule \<lparr>hosts = hs, rules = pre @ (p, xs @ i # ys) # post\<rparr> host)
        \<subseteq> set hs"
      unfolding resolved by (rule resolved_hosts)
    have "findProxyForURL \<lparr>hosts = hs, rules = pre @ (p, xs @ i # ys) # post\<rparr> url host
        = concat (map (\<lambda>item. directive item @ '';'')
            (filterDefined
               (map (\<lambda>hostId. find (\<lambda>item. host_id item = hostId) hs) (xs @ ys))))
          @ ''DIRECT''"
      by (simp add: findProxyForURL_def resolved join_then_direct comp_def)
    with resolved ids members show ?thesis
      by blast
  qed
  from same same_text first show ?thesis
    by blast
qed

theorem resolve_skips_dangling_id_witness:
  "(5::int) \<notin> host_id ` set [proxy1, proxy2]
   \<and> \<not> hostMatch ''www.github.com'' ''*.google.com''
   \<and> hostMatch ''www.github.com'' ''*.github.com''
   \<and> resolveHostsByRule
        \<lparr>hosts = [proxy1, proxy2],
         rules = [(''*.google.com'', [1]), (''*.github.com'', [2, 5, 1]),
                  (''www.github.com'', [1])]\<rparr>
        ''www.github.com'' = [proxy2, proxy1]
   \<and> findProxyForURL
        \<lparr>hosts = [proxy1, proxy2],
         rules = [(''*.google.com'', [1]), (''*.github.com'', [2, 5, 1]),
                  (''www.github.com'', [1])]\<rparr>
        ''https://www.github.com'' ''www.github.com''
        = ''HTTP proxy2.example.com:8081;SOCKS proxy.example.com:8080;DIRECT''"
proof -
  have dangling: "(5::int) \<notin> host_id ` set [proxy1, proxy2]"
    by (simp add: proxy1_def proxy2_def)
  have no: "\<forall>r \<in> set [(''*.google.com'', [1::int])]. \<not> hostMatch ''www.github.com'' (fst r)"
    by (simp add: hostMatch_def startsWith_def endsWith_def slice_def)
  have yes: "hostMatch ''www.github.com'' ''*.github.com''"
    by (simp add: hostMatch_def startsWith_def endsWith_def slice_def)
  have ids: "host_id proxy1 = 1" "host_id proxy2 = 2"
    by (simp_all add: proxy1_def proxy2_def)
  have found: "filterDefined
      (map (\<lambda>hostId. find (\<lambda>item. host_id item = hostId) [proxy1, proxy2]) ([2] @ [1]))
      = [proxy2, proxy1]"
    by (simp add: ids)
  have texts: "directive proxy1 = ''SOCKS proxy.example.com:8080''"
    "directive proxy2 = ''HTTP proxy2.example.com:8081''"
    by (simp_all add: directive_def typeOrProxy_def proxy1_def proxy2_def showInt_small)
  note inst = resolve_skips_dangling_id
    [OF dangling, of "[(''*.google.com'', [1])]" "''*.github.com''" "[2]" "[1]"
      "[(''www.github.com'', [1])]" "''www.github.com''" "''https://www.github.com''",
      THEN conjunct2, THEN conjunct2, rule_format, OF conjI, OF no yes]
  from inst [THEN conjunct1] found
  have hosts: "resolveHostsByRule
        \<lparr>hosts = [proxy1, proxy2],
         rules = [(''*.google.com'', [1]), (''*.github.com'', [2, 5, 1]),
                  (''www.github.com'', [1])]\<rparr>
        ''www.github.com'' = [proxy2, proxy1]"
    by simp
  from inst [THEN conjunct2, THEN conjunct2, THEN conjunct2] found texts
  have line: "findProxyForURL
        \<lparr>hosts = [proxy1, proxy2],
         rules = [(''*.google.com'', [1]), (''*.github.com'', [2, 5, 1]),
                  (''www.github.com'', [1])]\<rparr>
        ''https://www.github.com'' ''www.github.com''
        = ''HTTP proxy2.example.com:8081;SOCKS proxy.example.com:8080;DIRECT''"
    by simp
  from dangling no yes hosts line show ?thesis
    by simp
qed

subsection \<open>The embedded-logic script\<close>

lemma generatePac_declares:
  "declares (generatePac c) name =
     (name \<in> {''hostConfig'', ''hostMatch'', ''findProxyForURL'', ''FindProxyForURL''})"
  by (auto simp: declares_def generatePac_def)

text \<open>
  Had the script also held the source text of \<^verbatim>\<open>resolveHostsByRule\<close>, running it would
  give what \<open>findProxyForURL\<close> gives.
\<close>

lemma runPac_with_resolver:
  "runPac (generatePac c @ [FunctionSource ''resolveHostsByRule'']) url host
     = Inr (findProxyForURL c url host)"
  by (simp add: runPac_def scriptFindProxyForURL_def scriptResolveHostsByRule_def
      declares_def generatePac_def findProxyForURL_def)

lemma runPac_generatePac:
  "runPac (generatePac c) url host = Inl (ReferenceError ''resolveHostsByRule'')"
  by (simp add: runPac_def scriptFindProxyForURL_def declares_def generatePac_def)

text \<open>
  C5. The claim is that running the script of \<open>generatePac hostConfig\<close> on a query gives
  what \<open>findProxyForURL hostConfig\<close> gives on it. The script does not hold
  \<^verbatim>\<open>resolveHostsByRule\<close>, which the embedded \<^verbatim>\<open>findProxyForURL\<close> calls: on the
  configuration of the tests and the host \<open>www.google.com\<close> the script raises a
  \<^verbatim>\<open>ReferenceError\<close>, where the direct call returns the SOCKS directive and \<open>DIRECT\<close>.
\<close>

theorem generatePac_script_raises:
  "runPac (generatePac testConfig) ''https://www.google.com'' ''www.google.com''
     = Inl (ReferenceError ''resolveHostsByRule'')
   \<and> findProxyForURL testConfig ''https://www.google.com'' ''www.google.com''
     = ''SOCKS proxy.example.com:8080;DIRECT''"
  by (simp add: runPac_def scriptFindProxyForURL_def declares_def generatePac_def
      findProxyForURL_def resolveHostsByRule_def testConfig_def hostMatch_def startsWith_def
      endsWith_def slice_def proxy1_def proxy2_def directive_def typeOrProxy_def
      showInt_small)

subsection \<open>The pre-expanded script: patterns\<close>

lemma patternToRegex_chars:
  "patternToRegex p =
     concat (map (\<lambda>x. if x = CHR ''*'' then [backslash, CHR ''.'', CHR ''*'']
                       else if x = CHR ''.'' then [backslash, CHR ''.''] else [x]) p)"
  by (induction p) (auto simp: patternToRegex_def replaceAll_def backslash_def)

lemma claimedPatternToRegex_chars:
  "claimedPatternToRegex p =
     concat (map (\<lambda>x. if x = CHR ''*'' then ''.*''
                       else if x = CHR ''.'' then [backslash, CHR ''.''] else [x]) p)"
  by (induction p) (auto simp: claimedPatternToRegex_def replaceAll_def backslash_def)

text \<open>
  C6. The claim is that the dots of a pattern are escaped before its stars are expanded.
  The handler expands the stars first and escapes the dots second, so the dot of every
  \<open>.*\<close> it has just written is escaped too: \<open>*.example.com\<close> becomes
  \<open>\.*\.example\.com\<close>, where the order of the claim gives \<open>.*\.example\.com\<close>, and
  \<open>cdn*.example.com\<close> becomes \<open>cdn\.*\.example\.com\<close>, which asks for dots after
  \<open>cdn\<close>, where the order of the claim gives \<open>cdn.*\.example\.com\<close>.
\<close>

theorem patternToRegex_escapes_wildcard:
  "patternToRegex ''*.example.com''
     = [backslash] @ ''.*'' @ [backslash] @ ''.example'' @ [backslash] @ ''.com''
   \<and> claimedPatternToRegex ''*.example.com''
     = ''.*'' @ [backslash] @ ''.example'' @ [backslash] @ ''.com''
   \<and> patternToRegex ''*.example.com'' \<noteq> claimedPatternToRegex ''*.example.com''
   \<and> patternToRegex ''cdn*.example.com''
     = ''cdn'' @ [backslash] @ ''.*'' @ [backslash] @ ''.example'' @ [backslash] @ ''.com''
   \<and> claimedPatternToRegex ''cdn*.example.com''
     = ''cdn.*'' @ [backslash] @ ''.example'' @ [backslash] @ ''.com''"
  by (simp add: patternToRegex_def claimedPatternToRegex_def replaceAll_def backslash_def)

subsection \<open>Decoding the host ids of a rule\<close>








lemma testParse_values:
  "testParse ''[1,null,-2,1.5,3,1]''
     = Some (JArray [JNumber (Finite 1), JNull, JNumber (Finite (- 2)),
         JNumber (Finite (3 / 2)), JNumber (Finite 3), JNumber (Finite 1)])"
  "testParse ''[2,1]'' = Some (JArray [JNumber (Finite 2), JNumber (Finite 1)])"
  "testParse ''[]'' = Some (JArray [])"
  "testParse ''5'' = Some (JNumber (Finite 5))"
  "testParse ''oops'' = None"
  \<open>testParse ''[true,"7",2]'' = Some (JArray [JBool True, JString ''7'', JNumber (Finite 2)])\<close>
  by (simp_all add: testParse_def)




subsection \<open>The pre-expanded script\<close>

lemma foldl_append_entries:
  "foldl (\<lambda>content host. content @ f host) acc hs = acc @ concat (map f hs)"
  by (induction hs arbitrary: acc) auto

lemma appendRules_Inr:
  "appendRules b rs acc = Inr out \<Longrightarrow>
     \<exists>ls. map (ruleConditional b) rs = map Inr ls \<and> out = acc @ concat ls"
proof (induction rs arbitrary: acc)
  case Nil
  then show ?case by simp
next
  case (Cons r rs)
  then obtain l where l: "ruleConditional b r = Inr l"
      and rest: "appendRules b rs (acc @ l) = Inr out"
    by (auto split: sum.splits)
  from Cons.IH [OF rest] obtain ls
    where "map (ruleConditional b) rs = map Inr ls" and "out = (acc @ l) @ concat ls"
    by blast
  with l have "map (ruleConditional b) (r # rs) = map Inr (l # ls) \<and> out = acc @ concat (l # ls)"
    by simp
  then show ?case by blast
qed

lemma appendRules_all_Inr:
  "map (ruleConditional b) rs = map Inr ls \<Longrightarrow> appendRules b rs acc = Inr (acc @ concat ls)"
  by (induction rs arbitrary: acc ls) auto

lemma pacContent_shape:
  assumes "pacContent b hs rs = Inr text"
  shows "\<exists>ls. map (ruleConditional b) rs = map Inr ls
           \<and> text = pacHeader @ hostsTable hs @ pacMiddle @ concat ls @ pacFooter"
proof -
  from assms obtain withRules
    where run: "appendRules b rs ((pacHeader @ hostsTable hs) @ pacMiddle) = Inr withRules"
      and out: "text = withRules @ pacFooter"
    by (auto simp: pacContent_def foldl_append_entries hostsTable_def split: sum.splits)
  from appendRules_Inr [OF run] out show ?thesis
    by auto
qed

lemma pacContent_all_Inr:
  "map (ruleConditional b) rs = map Inr ls \<Longrightarrow>
     pacContent b hs rs = Inr (pacHeader @ hostsTable hs @ pacMiddle @ concat ls @ pacFooter)"
  by (simp add: pacContent_def foldl_append_entries hostsTable_def appendRules_all_Inr)

lemma hostEntry_in_table: "h \<in> set hs \<Longrightarrow> sublist (hostEntry h) (hostsTable hs)"
proof -
  assume "h \<in> set hs"
  then obtain pre post where "hs = pre @ h # post"
    by (auto dest: split_list)
  then have "hostsTable hs = hostsTable pre @ hostEntry h @ hostsTable post"
    by (simp add: hostsTable_def)
  then show ?thesis
    by (auto simp: sublist_def)
qed

lemma hostEntry_other:
  "pac_type h \<notin> {''SOCKS'', ''HTTP'', ''HTTPS''} \<Longrightarrow> hostEntry h = []"
  by (simp add: hostEntry_def)

text \<open>
  C7 (as amended). When the handler produces a script, the script starts with the header,
  the lookup table and the middle part, and for every host whose type is \<open>SOCKS\<close>,
  \<open>HTTP\<close> or \<open>HTTPS\<close> the lookup table holds an entry keyed by the id of that host, a
  proxy string of the host's keyword, host and port.
\<close>

theorem pacContent_table_entries:
  \<open>pacContent b hs rs = Inr text \<Longrightarrow>
     prefix (pacHeader @ hostsTable hs @ pacMiddle) text
     \<and> (\<forall>h \<in> set hs. pac_type h \<in> {''SOCKS'', ''HTTP'', ''HTTPS''} \<longrightarrow>
          sublist
            (''        '' @ showInt (pac_id h) @ '': "''
               @ (if pac_type h = ''SOCKS'' then ''SOCKS5''
                  else if pac_type h = ''HTTP'' then ''PROXY'' else ''HTTPS'')
               @ '' '' @ pac_host h @ '':'' @ showInt (pac_port h) @ ''",\<newline>'')
            (hostsTable hs))\<close>
proof
  assume "pacContent b hs rs = Inr text"
  from pacContent_shape [OF this] show "prefix (pacHeader @ hostsTable hs @ pacMiddle) text"
    by (auto simp: prefix_def)
next
  show \<open>\<forall>h \<in> set hs. pac_type h \<in> {''SOCKS'', ''HTTP'', ''HTTPS''} \<longrightarrow>
          sublist
            (''        '' @ showInt (pac_id h) @ '': "''
               @ (if pac_type h = ''SOCKS'' then ''SOCKS5''
                  else if pac_type h = ''HTTP'' then ''PROXY'' else ''HTTPS'')
               @ '' '' @ pac_host h @ '':'' @ showInt (pac_port h) @ ''",\<newline>'')
            (hostsTable hs)\<close>
  proof (intro ballI impI)
    fix h
    assume h: "h \<in> set hs" and typed: "pac_type h \<in> {''SOCKS'', ''HTTP'', ''HTTPS''}"
    from typed have entry: \<open>hostEntry h =
        ''        '' @ showInt (pac_id h) @ '': "''
          @ (if pac_type h = ''SOCKS'' then ''SOCKS5''
             else if pac_type h = ''HTTP'' then ''PROXY'' else ''HTTPS'')
          @ '' '' @ pac_host h @ '':'' @ showInt (pac_port h) @ ''",\<newline>''\<close>
      by (auto simp: hostEntry_def)
    from hostEntry_in_table [OF h] show \<open>sublist
            (''        '' @ showInt (pac_id h) @ '': "''
               @ (if pac_type h = ''SOCKS'' then ''SOCKS5''
                  else if pac_type h = ''HTTP'' then ''PROXY'' else ''HTTPS'')
               @ '' '' @ pac_host h @ '':'' @ showInt (pac_port h) @ ''",\<newline>'')
            (hostsTable hs)\<close>
      by (simp only: entry)
  qed
qed

lemma hostsTable_rows:
  \<open>hostsTable [socksRow, httpRow] =
     ''        1: "SOCKS5 proxy.example.com:8080",\<newline>''
       @ ''        2: "PROXY proxy2.example.com:8081",\<newline>''\<close>
  by (simp add: hostsTable_def hostEntry_def socksRow_def httpRow_def showInt_small)

lemma googleRule_conditional:
  "ruleConditional testBuiltins googleRule =
     Inr (''    if (/'' @ [backslash] @ ''.*'' @ [backslash] @ ''.google'' @ [backslash]
            @ ''.com/.test(host)) return PROXY[2];\<newline>'')"
  by (simp add: ruleConditional_def googleRule_def testBuiltins_def testParse_values
      lengthPositive_def firstElementText_def textOf_def testString_def patternToRegex_def
      replaceAll_def showInt_def digit_def)

lemma youtubeRule_conditional: "ruleConditional testBuiltins youtubeRule = Inr []"
  by (simp add: ruleConditional_def youtubeRule_def testBuiltins_def testParse_values
      lengthPositive_def)

lemma row_fields:
  "pac_id socksRow = 1" "pac_type socksRow = ''SOCKS''"
  "pac_host socksRow = ''proxy.example.com''" "pac_port socksRow = 8080"
  "pac_id httpRow = 2" "pac_type httpRow = ''HTTP''"
  "pac_host httpRow = ''proxy2.example.com''" "pac_port httpRow = 8081"
  by (simp_all add: socksRow_def httpRow_def)

theorem pacContent_table_entries_witness:
  \<open>pacContent testBuiltins [socksRow, httpRow] [googleRule]
     = Inr (pacHeader @ hostsTable [socksRow, httpRow] @ pacMiddle
         @ (''    if (/'' @ [backslash] @ ''.*'' @ [backslash] @ ''.google'' @ [backslash]
              @ ''.com/.test(host)) return PROXY[2];\<newline>'')
         @ pacFooter)
   \<and> sublist ''        1: "SOCKS5 proxy.example.com:8080",\<newline>''
        (hostsTable [socksRow, httpRow])
   \<and> sublist ''        2: "PROXY proxy2.example.com:8081",\<newline>''
        (hostsTable [socksRow, httpRow])\<close>
proof -
  have run: "pacContent testBuiltins [socksRow, httpRow] [googleRule]
     = Inr (pacHeader @ hostsTable [socksRow, httpRow] @ pacMiddle
         @ (''    if (/'' @ [backslash] @ ''.*'' @ [backslash] @ ''.google'' @ [backslash]
              @ ''.com/.test(host)) return PROXY[2];\<newline>'')
         @ pacFooter)"
    using pacContent_all_Inr
      [of testBuiltins "[googleRule]"
        "[''    if (/'' @ [backslash] @ ''.*'' @ [backslash] @ ''.google'' @ [backslash]
              @ ''.com/.test(host)) return PROXY[2];\<newline>'']" "[socksRow, httpRow]"]
    by (simp add: googleRule_conditional)
  note entries = pacContent_table_entries [OF run, THEN conjunct2]
  have socks: \<open>sublist ''        1: "SOCKS5 proxy.example.com:8080",\<newline>''
        (hostsTable [socksRow, httpRow])\<close>
    using entries [THEN bspec, of socksRow]
    by (simp add: row_fields showInt_small)
  have http: \<open>sublist ''        2: "PROXY proxy2.example.com:8081",\<newline>''
        (hostsTable [socksRow, httpRow])\<close>
    using entries [THEN bspec, of httpRow]
    by (simp add: row_fields showInt_small)
  from run socks http show ?thesis
    by blast
qed

theorem pacContent_proxy_type_counterexample:
  \<open>pacContent testBuiltins [proxyRow] [] = Inr (pacHeader @ pacMiddle @ pacFooter)
   \<and> hostsTable [proxyRow] = []
   \<and> \<not> (\<exists>proxy. sublist (''        '' @ showInt (pac_id proxyRow) @ '': "'' @ proxy @ ''",\<newline>'')
            (hostsTable [proxyRow]))\<close>
proof -
  have empty: "hostsTable [proxyRow] = []"
    by (simp add: hostsTable_def hostEntry_def proxyRow_def)
  have "pacContent testBuiltins [proxyRow] [] = Inr (pacHeader @ pacMiddle @ pacFooter)"
    using pacContent_all_Inr [of testBuiltins "[]" "[]" "[proxyRow]"] empty by simp
  with empty show ?thesis
    by simp
qed

lemma pacHeader_declares_default:
  \<open>prefix
     (''\<newline>function FindProxyForURL(url, host) {\<newline>    // '' @ commentDirect
        @ ''\<newline>    var DEFAULT = "DIRECT";\<newline>'')
     pacHeader\<close>
  by (simp add: pacHeader_def)

lemma pacFooter_returns_default: "suffix ''    return DEFAULT;\<newline>}'' pacFooter"
proof -
  have "pacFooter = (''\<newline>    // '' @ commentReturn @ ''\<newline>'') @ ''    return DEFAULT;\<newline>}''"
    by (simp add: pacFooter_def)
  then show ?thesis
    by (rule suffixI)
qed

text \<open>
  C8. A rule whose host ids parse to a non-empty array gets one conditional, which
  returns the entry of the first id, whatever ids follow it; a rule whose host ids parse
  to the empty array gets no conditional; and a script the handler produces is the
  header, which declares \<open>DEFAULT\<close> as \<open>"DIRECT"\<close>, the table, the middle part, the
  conditionals of the rules in their order, and the footer, whose last statement returns
  \<open>DEFAULT\<close>.
\<close>

theorem ruleConditional_first_id_only:
  \<open>(json_parse b (rule_host_ids r) = Some (JArray (i # later)) \<and> to_string b i = Some first
        \<longrightarrow>
      ruleConditional b r
        = Inr (''    if (/'' @ patternToRegex (rule_pattern r) @ ''/.test(host)) return PROXY[''
            @ first @ ''];\<newline>''))
   \<and> (json_parse b (rule_host_ids r) = Some (JArray []) \<longrightarrow> ruleConditional b r = Inr [])
   \<and> (pacContent b hs rs = Inr text \<longrightarrow>
        (\<exists>ls. map (ruleConditional b) rs = map Inr ls
           \<and> text = pacHeader @ hostsTable hs @ pacMiddle @ concat ls @ pacFooter)
        \<and> prefix
            (''\<newline>function FindProxyForURL(url, host) {\<newline>    // '' @ commentDirect
               @ ''\<newline>    var DEFAULT = "DIRECT";\<newline>'')
            text
        \<and> suffix ''    return DEFAULT;\<newline>}'' text)\<close>
proof (intro conjI impI)
  assume "json_parse b (rule_host_ids r) = Some (JArray (i # later)) \<and> to_string b i = Some first"
  then show "ruleConditional b r
        = Inr (''    if (/'' @ patternToRegex (rule_pattern r) @ ''/.test(host)) return PROXY[''
            @ first @ ''];\<newline>'')"
    by (simp add: ruleConditional_def lengthPositive_def firstElementText_def textOf_def)
next
  assume "json_parse b (rule_host_ids r) = Some (JArray [])"
  then show "ruleConditional b r = Inr []"
    by (simp add: ruleConditional_def lengthPositive_def)
next
  assume run: "pacContent b hs rs = Inr text"
  from pacContent_shape [OF run] obtain ls
    where ls: "map (ruleConditional b) rs = map Inr ls"
      and shape: "text = pacHeader @ hostsTable hs @ pacMiddle @ concat ls @ pacFooter"
    by blast
  from ls shape show "\<exists>ls. map (ruleConditional b) rs = map Inr ls
           \<and> text = pacHeader @ hostsTable hs @ pacMiddle @ concat ls @ pacFooter"
    by blast
  from shape have "prefix pacHeader text"
    by simp
  with pacHeader_declares_default show \<open>prefix
            (''\<newline>function FindProxyForURL(url, host) {\<newline>    // '' @ commentDirect
               @ ''\<newline>    var DEFAULT = "DIRECT";\<newline>'')
            text\<close>
    by (rule prefix_order.trans)
  from shape have "text = (pacHeader @ hostsTable hs @ pacMiddle @ concat ls) @ pacFooter"
    by simp
  then have "suffix pacFooter text"
    by (rule suffixI)
  with pacFooter_returns_default show "suffix ''    return DEFAULT;\<newline>}'' text"
    by (rule suffix_order.trans)
qed

theorem ruleConditional_first_id_only_witness:
  \<open>ruleConditional testBuiltins googleRule
     = Inr (''    if (/'' @ [backslash] @ ''.*'' @ [backslash] @ ''.google'' @ [backslash]
            @ ''.com/.test(host)) return PROXY[2];\<newline>'')
   \<and> ruleConditional testBuiltins youtubeRule = Inr []
   \<and> pacContent testBuiltins [socksRow, httpRow] [googleRule, youtubeRule]
     = Inr (pacHeader @ hostsTable [socksRow, httpRow] @ pacMiddle
         @ (''    if (/'' @ [backslash] @ ''.*'' @ [backslash] @ ''.google'' @ [backslash]
              @ ''.com/.test(host)) return PROXY[2];\<newline>'')
         @ pacFooter)
   \<and> suffix ''    return DEFAULT;\<newline>}''
        (pacHeader @ hostsTable [socksRow, httpRow] @ pacMiddle
         @ (''    if (/'' @ [backslash] @ ''.*'' @ [backslash] @ ''.google'' @ [backslash]
              @ ''.com/.test(host)) return PROXY[2];\<newline>'')
         @ pacFooter)\<close>
proof -
  have google: "json_parse testBuiltins (rule_host_ids googleRule)
      = Some (JArray (JNumber (Finite 2) # [JNumber (Finite 1)]))"
    by (simp add: testBuiltins_def googleRule_def testParse_values)
  have youtube: "json_parse testBuiltins (rule_host_ids youtubeRule) = Some (JArray [])"
    by (simp add: testBuiltins_def youtubeRule_def testParse_values)
  have two: "to_string testBuiltins (JNumber (Finite 2)) = Some ''2''"
    by (simp add: testBuiltins_def testString_def showInt_small)
  have regex: "patternToRegex (rule_pattern googleRule)
      = [backslash] @ ''.*'' @ [backslash] @ ''.google'' @ [backslash] @ ''.com''"
    by (simp add: googleRule_def patternToRegex_def replaceAll_def)
  from ruleConditional_first_id_only
    [of testBuiltins googleRule "JNumber (Finite 2)" "[JNumber (Finite 1)]" "''2''"]
    google two regex
  have first: "ruleConditional testBuiltins googleRule
     = Inr (''    if (/'' @ [backslash] @ ''.*'' @ [backslash] @ ''.google'' @ [backslash]
            @ ''.com/.test(host)) return PROXY[2];\<newline>'')"
    by simp
  from ruleConditional_first_id_only [of testBuiltins youtubeRule] youtube
  have none: "ruleConditional testBuiltins youtubeRule = Inr []"
    by blast
  have run: "pacContent testBuiltins [socksRow, httpRow] [googleRule, youtubeRule]
     = Inr (pacHeader @ hostsTable [socksRow, httpRow] @ pacMiddle
         @ (''    if (/'' @ [backslash] @ ''.*'' @ [backslash] @ ''.google'' @ [backslash]
              @ ''.com/.test(host)) return PROXY[2];\<newline>'')
         @ pacFooter)"
    using pacContent_all_Inr
      [of testBuiltins "[googleRule, youtubeRule]"
        "[''    if (/'' @ [backslash] @ ''.*'' @ [backslash] @ ''.google'' @ [backslash]
              @ ''.com/.test(host)) return PROXY[2];\<newline>'', []]" "[socksRow, httpRow]"]
      first none
    by simp
  from ruleConditional_first_id_only
    [of testBuiltins googleRule "JNumber (Finite 2)" "[JNumber (Finite 1)]" "''2''"
      "[socksRow, httpRow]" "[googleRule, youtubeRule]", THEN conjunct2,
      THEN conjunct2, rule_format, OF run]
  have last: "suffix ''    return DEFAULT;\<newline>}''
        (pacHeader @ hostsTable [socksRow, httpRow] @ pacMiddle
         @ (''    if (/'' @ [backslash] @ ''.*'' @ [backslash] @ ''.google'' @ [backslash]
              @ ''.com/.test(host)) return PROXY[2];\<newline>'')
         @ pacFooter)"
    by blast
  from first none run last show ?thesis
    by blast
qed



end
